theory Spec2Isabelle
  imports Main
begin

section \<open>JavaScript values and calls used by the dashboard aggregator\<close>

text \<open>
  The two exceptions the modelled code can raise itself: a plain \<^verbatim>\<open>Error\<close> (thrown by
  \<^verbatim>\<open>validateConfigSetting\<close> and by collaborators) and the \<^verbatim>\<open>TypeError\<close> that the
  language raises when a property of \<^verbatim>\<open>undefined\<close> is read or destructured.
\<close>

datatype js_error = Error string | TypeError string

fun message :: "js_error \<Rightarrow> string" where
  "message (Error m) = m"
| "message (TypeError m) = m"

text \<open>The string a template literal \<^verbatim>\<open>${e}\<close> produces for an error: name, colon, message.\<close>

fun error_toString :: "js_error \<Rightarrow> string" where
  "error_toString (Error m) = ''Error: '' @ m"
| "error_toString (TypeError m) = ''TypeError: '' @ m"

text \<open>
  What calling a collaborator can do: throw before returning, return a promise that is
  rejected, or return a value (or a promise fulfilled with it).
\<close>

datatype 'a js_call = Throws js_error | Rejects js_error | Resolves 'a

text \<open>\<^verbatim>\<open>await f()\<close> inside a \<^verbatim>\<open>try\<close>: a throw and a rejection both reach the handler.\<close>

fun await_call :: "'a js_call \<Rightarrow> js_error + 'a" where
  "await_call (Throws e) = Inl e"
| "await_call (Rejects e) = Inl e"
| "await_call (Resolves v) = Inr v"

text \<open>
  \<^verbatim>\<open>const p = f()\<close> without \<^verbatim>\<open>await\<close>: only a synchronous throw reaches the handler at
  this point; the promise is kept and settled by a later \<^verbatim>\<open>await p\<close>.
\<close>

fun invoke :: "'a js_call \<Rightarrow> js_error + (js_error + 'a)" where
  "invoke (Throws e) = Inl e"
| "invoke (Rejects e) = Inr (Inl e)"
| "invoke (Resolves v) = Inr (Inr v)"

text \<open>Sequencing of steps that may throw: the first error ends the \<^verbatim>\<open>try\<close> block.\<close>

fun and_then :: "'e + 'a \<Rightarrow> ('a \<Rightarrow> 'e + 'b) \<Rightarrow> 'e + 'b" where
  "and_then (Inl e) f = Inl e"
| "and_then (Inr v) f = f v"

text \<open>
  \<^verbatim>\<open>xs.slice(0, end)\<close> on an array, for an integer \<^verbatim>\<open>end\<close>: a negative end counts from
  the end of the array and is clamped at 0; an end beyond the length is clamped to it.
\<close>

definition slice0 :: "'a list \<Rightarrow> int \<Rightarrow> 'a list" where
  "slice0 xs end = (if end < 0 then take (nat (int (length xs) + end)) xs
                    else take (nat end) xs)"

section \<open>Feed aggregation (index.js, createFeeds)\<close>

text \<open>
  The three feed objects \<^verbatim>\<open>newsFeed\<close>, \<^verbatim>\<open>eventsFeed\<close>, \<^verbatim>\<open>videosFeed\<close> are module-level
  constants of index.js; their class lives in \<^verbatim>\<open>./feed\<close>. The record holds what
  \<^verbatim>\<open>getItems()\<close> does on each of them, and on \<^verbatim>\<open>ilFeed\<close>, at the time of the request.
\<close>

record 'i feeds_env =
  newsFeed_getItems :: "'i list js_call"
  eventsFeed_getItems :: "'i list js_call"
  videosFeed_getItems :: "'i list js_call"
  ilFeed_getItems :: "'i list js_call"

text \<open>The object \<^verbatim>\<open>createFeeds\<close> returns: \<^verbatim>\<open>{ news, events, videos }\<close>.\<close>

record 'i feeds_object =
  news :: "'i list"
  events :: "'i list"
  videos :: "'i list"

text \<open>
  \<^verbatim>\<open>createFeeds\<close> awaits the three reads one after the other inside \<^verbatim>\<open>try { } finally\<close>
  (the \<^verbatim>\<open>finally\<close> only ends the tracing span), so the first read that fails rejects the
  whole call. It is an \<^verbatim>\<open>async\<close> function: it never throws synchronously.
\<close>

definition createFeeds :: "('i, 'z) feeds_env_scheme \<Rightarrow> int \<Rightarrow> js_error + 'i feeds_object" where
  "createFeeds env limit =
     and_then (await_call (newsFeed_getItems env)) (\<lambda>newsItems.
     and_then (await_call (eventsFeed_getItems env)) (\<lambda>eventsItems.
     and_then (await_call (videosFeed_getItems env)) (\<lambda>videosItems.
       Inr \<lparr>news = slice0 newsItems limit,
            events = slice0 eventsItems limit,
            videos = slice0 videosItems limit\<rparr>)))"

section \<open>Request handlers (index.js)\<close>

text \<open>
  The parts of an Express request the handlers read: the \<^verbatim>\<open>:username\<close> path parameter and
  the two query parameters (\<open>None\<close> when the parameter is not given).
\<close>

record request =
  params_username :: string
  query_limit :: "string option"
  query_start_date_interval :: "string option"

text \<open>
  The collaborators of the handlers, imported from modules \<^verbatim>\<open>./util\<close>, \<^verbatim>\<open>./constants\<close>,
  \<^verbatim>\<open>./analyses/*\<close>, \<^verbatim>\<open>./apps/*\<close> and \<^verbatim>\<open>./clients/*\<close>, taken as parameters; \<open>'d\<close> is the
  type of the JSON data they exchange. The database client \<^verbatim>\<open>db\<close> they receive is the
  module-level constant and is left implicit. \<^verbatim>\<open>validateLimit\<close> is called without
  \<^verbatim>\<open>await\<close>: it returns a number, \<^verbatim>\<open>null\<close>/\<^verbatim>\<open>undefined\<close> (\<open>None\<close>), or throws.
\<close>

record ('i, 'd) env = "'i feeds_env" +
  validateInterval :: "string option \<Rightarrow> 'd option js_call"
  validateLimit :: "string option \<Rightarrow> js_error + int option"
  DEFAULT_START_DATE_INTERVAL :: 'd
  FEATURED_APPS_AVUS :: 'd
  recentAnalysesData :: "string \<Rightarrow> int \<Rightarrow> 'd option js_call"
  runningAnalysesData :: "string \<Rightarrow> int \<Rightarrow> 'd option js_call"
  getPublicAppIDs :: "'d js_call"
  recentlyAddedData :: "string \<Rightarrow> int \<Rightarrow> 'd \<Rightarrow> 'd js_call"
  publicAppsData :: "string \<Rightarrow> int \<Rightarrow> 'd \<Rightarrow> 'd js_call"
  getRecentlyUsedApps :: "string \<Rightarrow> int \<Rightarrow> 'd \<Rightarrow> 'd \<Rightarrow> 'd js_call"
  getFilteredTargetIds :: "'d \<Rightarrow> 'd \<Rightarrow> string \<Rightarrow> 'd js_call"
  popularFeaturedData :: "string \<Rightarrow> int \<Rightarrow> 'd \<Rightarrow> 'd \<Rightarrow> 'd js_call"

text \<open>
  The JSON object of the per-user dashboard, with the nested objects \<^verbatim>\<open>apps\<close> and
  \<^verbatim>\<open>analyses\<close> flattened into field names. \<^verbatim>\<open>recentAnalysesData\<close> and
  \<^verbatim>\<open>runningAnalysesData\<close> resolve to the value that \<^verbatim>\<open>(await x)?.analyses\<close> reads:
  \<open>None\<close> when the result is nullish or has no such property.
\<close>

record ('i, 'd) dashboard =
  apps_recentlyAdded :: 'd
  apps_public :: 'd
  apps_recentlyUsed :: 'd
  apps_popularFeatured :: 'd
  analyses_recent :: "'d option"
  analyses_running :: "'d option"
  instantLaunches :: "'i list"
  feeds :: "'i feeds_object"

datatype ('i, 'd) body =
    Reason string
  | Feeds "'i feeds_object"
  | Dashboard "('i, 'd) dashboard"
  | Text string

text \<open>\<^verbatim>\<open>res.status(n).json(b)\<close> or \<^verbatim>\<open>res.status(n).send(b)\<close>.\<close>

datatype ('i, 'd) response = Response nat "('i, 'd) body"

text \<open>\<^verbatim>\<open>x ?? d\<close>\<close>

fun nullish_or :: "'a option \<Rightarrow> 'a \<Rightarrow> 'a" where
  "nullish_or None d = d"
| "nullish_or (Some v) d = v"

text \<open>\<^verbatim>\<open>app.get("/feeds")\<close>, lines 226 to 238.\<close>

definition feeds_handler :: "('i, 'd) env \<Rightarrow> request \<Rightarrow> ('i, 'd) response" where
  "feeds_handler env req =
     (case and_then (validateLimit env (query_limit req)) (\<lambda>l.
             createFeeds env (nullish_or l 10))
      of Inr fs \<Rightarrow> Response 200 (Feeds fs)
       | Inl e \<Rightarrow> Response 500 (Reason (''error getting feeds: '' @ message e)))"

text \<open>
  \<^verbatim>\<open>app.get("/users/:username")\<close>, lines 118 to 190. The collaborators are called first
  and their promises awaited later, so a synchronous throw is caught where the call is
  made and a rejection where the promise is awaited; \<^verbatim>\<open>publicAppIDs\<close> is awaited four times
  and \<^verbatim>\<open>createFeeds\<close>, being \<^verbatim>\<open>async\<close>, can only reject.
\<close>

definition users_try :: "('i, 'd) env \<Rightarrow> request \<Rightarrow> js_error + ('i, 'd) dashboard" where
  "users_try env req =
     (let username = params_username req in
      and_then (await_call (validateInterval env (query_start_date_interval req))) (\<lambda>iv.
      let startDateInterval = nullish_or iv (DEFAULT_START_DATE_INTERVAL env) in
      and_then (validateLimit env (query_limit req)) (\<lambda>l.
      let limit = nullish_or l 10 in
      and_then (invoke (ilFeed_getItems env)) (\<lambda>instantLaunches.
      let feeds = createFeeds env limit in
      and_then (invoke (recentAnalysesData env username limit)) (\<lambda>recentAnalyses.
      and_then (invoke (runningAnalysesData env username limit)) (\<lambda>runningAnalyses.
      and_then (invoke (getPublicAppIDs env)) (\<lambda>publicAppIDs.
      and_then publicAppIDs (\<lambda>ids1.
      and_then (invoke (recentlyAddedData env username limit ids1)) (\<lambda>recentlyAdded.
      and_then publicAppIDs (\<lambda>ids2.
      and_then (invoke (publicAppsData env username limit ids2)) (\<lambda>publicApps.
      and_then publicAppIDs (\<lambda>ids3.
      and_then (invoke (getRecentlyUsedApps env username limit startDateInterval ids3))
        (\<lambda>recentlyUsed.
      and_then publicAppIDs (\<lambda>ids4.
      and_then (invoke (getFilteredTargetIds env ids4 (FEATURED_APPS_AVUS env) username))
        (\<lambda>featuredAppIds.
      and_then featuredAppIds (\<lambda>fids.
      and_then (invoke (popularFeaturedData env username limit fids startDateInterval))
        (\<lambda>popularFeatured.
      and_then recentlyAdded (\<lambda>v_recentlyAdded.
      and_then publicApps (\<lambda>v_public.
      and_then recentlyUsed (\<lambda>v_recentlyUsed.
      and_then popularFeatured (\<lambda>v_popularFeatured.
      and_then recentAnalyses (\<lambda>v_recent.
      and_then runningAnalyses (\<lambda>v_running.
      and_then instantLaunches (\<lambda>v_instantLaunches.
      and_then feeds (\<lambda>v_feeds.
        Inr \<lparr>apps_recentlyAdded = v_recentlyAdded,
             apps_public = v_public,
             apps_recentlyUsed = v_recentlyUsed,
             apps_popularFeatured = v_popularFeatured,
             analyses_recent = v_recent,
             analyses_running = v_running,
             instantLaunches = v_instantLaunches,
             feeds = v_feeds\<rparr>)))))))))))))))))))))))))"

definition users_handler :: "('i, 'd) env \<Rightarrow> request \<Rightarrow> ('i, 'd) response" where
  "users_handler env req =
     (case users_try env req
      of Inr retval \<Rightarrow> Response 200 (Dashboard retval)
       | Inl e \<Rightarrow> Response 500 (Reason (''error running query: '' @ error_toString e)))"

subsection \<open>Health check\<close>

text \<open>
  One row of \<^verbatim>\<open>select version from version order by applied desc limit 1\<close>, and the value
  that \<^verbatim>\<open>const { rows } = ...\<close> destructures: the query result (an object whose \<^verbatim>\<open>rows\<close>
  is an array) when the query succeeds, and whatever \<^verbatim>\<open>logger.error(e)\<close> returns when the
  \<^verbatim>\<open>.catch\<close> handler ran: \<^verbatim>\<open>undefined\<close>, or an object, with or without a \<^verbatim>\<open>rows\<close>
  property.
\<close>

record version_row =
  version :: string

datatype destructured = Undefined | Object "version_row list option"

text \<open>
  \<^verbatim>\<open>app.get("/healthz")\<close>, lines 99 to 110. The handler is \<^verbatim>\<open>async\<close> and has no
  \<^verbatim>\<open>try\<close>: an exception inside it is an unhandled rejection (\<open>Inl\<close>) and no response is
  sent. \<^verbatim>\<open>logger_error\<close> is what \<^verbatim>\<open>logger.error\<close> of \<^verbatim>\<open>./logging\<close> returns. An array is
  truthy even when empty, so \<^verbatim>\<open>!rows\<close> holds only when \<^verbatim>\<open>rows\<close> is \<^verbatim>\<open>undefined\<close>.
\<close>

definition healthz ::
  "(js_error \<Rightarrow> destructured) \<Rightarrow> version_row list js_call \<Rightarrow> js_error + ('i, 'd) response" where
  "healthz logger_error query =
     and_then (case query of
                 Throws e \<Rightarrow> Inl e
               | Rejects e \<Rightarrow> Inr (logger_error e)
               | Resolves rs \<Rightarrow> Inr (Object (Some rs))) (\<lambda>result.
     case result of
       Undefined \<Rightarrow>
         Inl (TypeError ''Cannot destructure property rows of undefined'')
     | Object None \<Rightarrow> Inr (Response 500 (Text ''no rows returned from database''))
     | Object (Some []) \<Rightarrow>
         Inl (TypeError ''Cannot read properties of undefined (reading version)'')
     | Object (Some (r # _)) \<Rightarrow> Inr (Response 200 (Text (''version '' @ version r))))"

section \<open>Configuration (configuration.js)\<close>

text \<open>
  The module reads its settings through the \<^verbatim>\<open>config\<close> package. A loaded configuration
  is a map from dotted setting names to values; \<^verbatim>\<open>config.has(name)\<close> tells whether the
  name is defined, and \<^verbatim>\<open>config.get(name)\<close> returns the value, \<^verbatim>\<open>null\<close> included, and
  throws for a name that is not defined. Numbers are integers small enough to print
  without an exponent.
\<close>

datatype cfgval = CNull | CStr string | CNum int | CBool bool

type_synonym config = "string \<rightharpoonup> cfgval"

definition has :: "config \<Rightarrow> string \<Rightarrow> bool" where
  "has config name = (config name \<noteq> None)"

definition get :: "config \<Rightarrow> string \<Rightarrow> js_error + cfgval" where
  "get config name =
     (case config name of
        None \<Rightarrow> Inl (Error (''Configuration property '' @ [CHR 0x22] @ name @ [CHR 0x22]
                             @ '' is not defined''))
      | Some v \<Rightarrow> Inr v)"

text \<open>\<^verbatim>\<open>validateConfigSetting\<close>, lines 13 to 17.\<close>

definition validateConfigSetting :: "config \<Rightarrow> string \<Rightarrow> js_error + unit" where
  "validateConfigSetting config name =
     (if \<not> has config name \<or> get config name = Inr CNull
      then Inl (Error (name @ '' must be set in the configuration''))
      else Inr ())"

text \<open>\<^verbatim>\<open>validate\<close>, lines 22 to 33: ten calls, in this order.\<close>

definition validate :: "config \<Rightarrow> js_error + unit" where
  "validate config =
     and_then (validateConfigSetting config ''db.user'') (\<lambda>_.
     and_then (validateConfigSetting config ''db.password'') (\<lambda>_.
     and_then (validateConfigSetting config ''db.host'') (\<lambda>_.
     and_then (validateConfigSetting config ''db.port'') (\<lambda>_.
     and_then (validateConfigSetting config ''db.database'') (\<lambda>_.
     and_then (validateConfigSetting config ''listen_port'') (\<lambda>_.
     and_then (validateConfigSetting config ''permissions.uri'') (\<lambda>_.
     and_then (validateConfigSetting config ''permissions.public_group'') (\<lambda>_.
     and_then (validateConfigSetting config ''apps.favorites_group_index'') (\<lambda>_.
     validateConfigSetting config ''apps.url'')))))))))"

text \<open>
  \<^verbatim>\<open>parseInt(v, 10)\<close>: the value is turned into a string, leading white space is skipped,
  an optional sign is read, then decimal digits up to the first other character; the
  result is \<^verbatim>\<open>NaN\<close> (\<open>None\<close>) when there is no digit.
\<close>

definition is_white_space :: "char \<Rightarrow> bool" where
  "is_white_space c = (c \<in> set [CHR '' '', CHR 0x09, CHR 0x0A, CHR 0x0B, CHR 0x0C, CHR 0x0D])"

definition digit_of :: "char \<Rightarrow> nat option" where
  "digit_of c = (let n = (of_char c :: nat) in
                 if of_char CHR ''0'' \<le> n \<and> n \<le> of_char CHR ''9''
                 then Some (n - of_char CHR ''0'') else None)"

fun parse_digits :: "string \<Rightarrow> nat option \<Rightarrow> nat option" where
  "parse_digits [] acc = acc"
| "parse_digits (c # cs) acc =
     (case digit_of c of
        None \<Rightarrow> acc
      | Some d \<Rightarrow> parse_digits cs (Some (10 * (case acc of None \<Rightarrow> 0 | Some a \<Rightarrow> a) + d)))"

definition parseInt_string :: "string \<Rightarrow> int option" where
  "parseInt_string s =
     (let t = dropWhile is_white_space s in
      if t \<noteq> [] \<and> hd t = CHR ''-'' then map_option (\<lambda>n. - int n) (parse_digits (tl t) None)
      else if t \<noteq> [] \<and> hd t = CHR ''+'' then map_option int (parse_digits (tl t) None)
      else map_option int (parse_digits t None))"

fun parseInt :: "cfgval \<Rightarrow> int option" where
  "parseInt (CStr s) = parseInt_string s"
| "parseInt (CNum n) = Some n"
| "parseInt (CBool b) = None"
| "parseInt CNull = None"

text \<open>\<^verbatim>\<open>v || d\<close>: the default replaces \<^verbatim>\<open>null\<close>, the empty string, 0 and \<^verbatim>\<open>false\<close>.\<close>

fun falsy :: "cfgval \<Rightarrow> bool" where
  "falsy CNull = True"
| "falsy (CStr s) = (s = [])"
| "falsy (CNum n) = (n = 0)"
| "falsy (CBool b) = (\<not> b)"

definition or_default :: "cfgval \<Rightarrow> cfgval \<Rightarrow> cfgval" where
  "or_default v d = (if falsy v then d else v)"

text \<open>The constants the module exports, lines 42 to 154.\<close>

record configuration =
  dbUser :: cfgval
  dbPass :: cfgval
  dbHost :: cfgval
  dbPort :: "int option"
  dbDatabase :: cfgval
  logLevel :: cfgval
  logLabel :: cfgval
  listenPort :: "int option"
  permissionsURL :: cfgval
  publicGroup :: cfgval
  websiteURL :: cfgval
  newsFeedPath :: cfgval
  eventsFeedPath :: cfgval
  videosURL :: cfgval
  appExposerURL :: cfgval
  appExposerUser :: cfgval
  favoritesGroupIndex :: "int option"
  appsURL :: cfgval
  metadataURL :: cfgval
  featuredAppsAttr :: cfgval
  featuredAppsValue :: cfgval

text \<open>
  Loading the module: \<^verbatim>\<open>validate()\<close> at line 35, then the exported constants in source
  order. The first exception ends the load, and with it the start of the process, since
  index.js imports the module before it does anything else.
\<close>

definition load_configuration :: "config \<Rightarrow> js_error + configuration" where
  "load_configuration config =
     and_then (validate config) (\<lambda>_.
     and_then (get config ''db.user'') (\<lambda>v_dbUser.
     and_then (get config ''db.password'') (\<lambda>v_dbPass.
     and_then (get config ''db.host'') (\<lambda>v_dbHost.
     and_then (get config ''db.port'') (\<lambda>v_dbPort.
     and_then (get config ''db.database'') (\<lambda>v_dbDatabase.
     and_then (get config ''logging.level'') (\<lambda>v_logLevel.
     and_then (get config ''logging.label'') (\<lambda>v_logLabel.
     and_then (get config ''listen_port'') (\<lambda>v_listenPort.
     and_then (get config ''permissions.uri'') (\<lambda>v_permissionsURL.
     and_then (get config ''permissions.public_group'') (\<lambda>v_publicGroup.
     and_then (get config ''website.url'') (\<lambda>v_websiteURL.
     and_then (get config ''website.feeds.news'') (\<lambda>v_newsFeedPath.
     and_then (get config ''website.feeds.events'') (\<lambda>v_eventsFeedPath.
     and_then (get config ''videos.url'') (\<lambda>v_videosURL.
     and_then (get config ''app-exposer.url'') (\<lambda>v_appExposerURL.
     and_then (get config ''app-exposer.user'') (\<lambda>v_appExposerUser.
     and_then (get config ''apps.favorites_group_index'') (\<lambda>v_favoritesGroupIndex.
     and_then (get config ''apps.url'') (\<lambda>v_appsURL.
     and_then (get config ''metadata.url'') (\<lambda>v_metadataURL.
     and_then (get config ''metadata.featured_apps_attr'') (\<lambda>v_featuredAppsAttr.
     and_then (get config ''metadata.featured_apps_value'') (\<lambda>v_featuredAppsValue.
       Inr \<lparr>dbUser = v_dbUser,
            dbPass = v_dbPass,
            dbHost = v_dbHost,
            dbPort = parseInt v_dbPort,
            dbDatabase = v_dbDatabase,
            logLevel = or_default v_logLevel (CStr ''info''),
            logLabel = or_default v_logLabel (CStr ''dashboard-aggregator''),
            listenPort = parseInt v_listenPort,
            permissionsURL = v_permissionsURL,
            publicGroup = v_publicGroup,
            websiteURL = v_websiteURL,
            newsFeedPath = v_newsFeedPath,
            eventsFeedPath = v_eventsFeedPath,
            videosURL = v_videosURL,
            appExposerURL = or_default v_appExposerURL (CStr ''http://app-exposer''),
            appExposerUser = v_appExposerUser,
            favoritesGroupIndex = parseInt v_favoritesGroupIndex,
            appsURL = v_appsURL,
            metadataURL = v_metadataURL,
            featuredAppsAttr = v_featuredAppsAttr,
            featuredAppsValue = v_featuredAppsValue\<rparr>))))))))))))))))))))))"

text \<open>The ten names \<^verbatim>\<open>validate\<close> checks, in its order.\<close>

definition required_settings :: "string list" where
  "required_settings =
     [''db.user'', ''db.password'', ''db.host'', ''db.port'', ''db.database'', ''listen_port'',
      ''permissions.uri'', ''permissions.public_group'', ''apps.favorites_group_index'',
      ''apps.url'']"

text \<open>The settings of the feed sources, read at lines 102 to 117.\<close>

definition feed_settings :: "string list" where
  "feed_settings = [''website.url'', ''website.feeds.news'', ''website.feeds.events'', ''videos.url'']"

definition unset :: "config \<Rightarrow> string \<Rightarrow> bool" where
  "unset config name = (config name = None \<or> config name = Some CNull)"

section \<open>Feed cache (module ./feed)\<close>

text \<open>
  Modelled from the spec: the feed classes \<^verbatim>\<open>WebsiteFeed\<close>, \<^verbatim>\<open>VideoFeed\<close> and
  \<^verbatim>\<open>DashboardInstantLaunchesFeed\<close> of \<^verbatim>\<open>./feed\<close> are not among the source files. A feed
  cache owns the current item list and the time of the last successful refresh (spec,
  sections 3 and 4.2). The field \<open>fetches\<close> counts the invocations of the bound fetcher,
  so that "triggers no fetch" can be stated.
\<close>

record 'i FeedCache =
  items :: "'i list"
  lastRefreshedAt :: "nat option"
  fetches :: nat

text \<open>Modelled from the spec: a cache that has never been refreshed holds no items.\<close>

definition new_FeedCache :: "'i FeedCache" where
  "new_FeedCache = \<lparr>items = [], lastRefreshedAt = None, fetches = 0\<rparr>"

text \<open>
  Modelled from the spec: \<^verbatim>\<open>getItems()\<close> returns the cached snapshot; the cache comes
  back as it was.
\<close>

definition getItems :: "'i FeedCache \<Rightarrow> 'i list \<times> 'i FeedCache" where
  "getItems c = (items c, c)"

text \<open>
  Modelled from the spec: \<^verbatim>\<open>refresh()\<close> (in the source, \<^verbatim>\<open>pullItems\<close>) invokes the
  fetcher, whose outcome is the first argument; on success it replaces the item list and
  records the time, on failure it leaves both and returns the error.
\<close>

definition refresh ::
  "js_error + 'i list \<Rightarrow> nat \<Rightarrow> 'i FeedCache \<Rightarrow> (js_error + unit) \<times> 'i FeedCache" where
  "refresh fetched now c =
     (case fetched of
        Inl e \<Rightarrow> (Inl e, c\<lparr>fetches := Suc (fetches c)\<rparr>)
      | Inr xs \<Rightarrow> (Inr (), c\<lparr>items := xs, lastRefreshedAt := Some now,
                               fetches := Suc (fetches c)\<rparr>))"

text \<open>A run of refreshes, one per clock tick, with the given fetcher outcomes.\<close>

fun refresh_all :: "(js_error + 'i list) list \<Rightarrow> nat \<Rightarrow> 'i FeedCache \<Rightarrow> 'i FeedCache" where
  "refresh_all [] now c = c"
| "refresh_all (r # rs) now c = refresh_all rs (Suc now) (snd (refresh r now c))"

text \<open>The result of the last fetch that succeeded, if any.\<close>

fun last_success :: "(js_error + 'i list) list \<Rightarrow> 'i list option" where
  "last_success [] = None"
| "last_success (r # rs) =
     (case last_success rs of
        Some xs \<Rightarrow> Some xs
      | None \<Rightarrow> (case r of Inl e \<Rightarrow> None | Inr xs \<Rightarrow> Some xs))"

section \<open>Process start and the calls made on the feeds (index.js)\<close>

datatype feed_name = newsFeed | eventsFeed | videosFeed | ilFeed

text \<open>
  The calls index.js makes on a feed object: the constructor, \<^verbatim>\<open>pullItems()\<close>,
  \<^verbatim>\<open>scheduleRefresh()\<close>, \<^verbatim>\<open>start()\<close> on the job that \<^verbatim>\<open>scheduleRefresh()\<close> resolves to,
  and \<^verbatim>\<open>getItems()\<close>.
\<close>

datatype feed_call = Construct | PullItems | ScheduleRefresh | Start | GetItems

text \<open>
  The calls made while the module is evaluated, lines 52 to 70, in source order. Lines 69
  and 70 are comments, so \<^verbatim>\<open>ilFeed\<close> is only constructed.
\<close>

definition startup_calls :: "(feed_name \<times> feed_call) list" where
  "startup_calls =
     [(newsFeed, Construct), (newsFeed, PullItems), (newsFeed, ScheduleRefresh),
      (eventsFeed, Construct), (eventsFeed, PullItems), (eventsFeed, ScheduleRefresh),
      (videosFeed, Construct), (videosFeed, PullItems), (videosFeed, ScheduleRefresh),
      (ilFeed, Construct)]"

text \<open>The feeds a request reads with \<^verbatim>\<open>getItems()\<close>: lines 126 and 81 to 83.\<close>

datatype route = UsersRoute | RootRoute | FeedsRoute

fun route_calls :: "route \<Rightarrow> (feed_name \<times> feed_call) list" where
  "route_calls UsersRoute =
     [(ilFeed, GetItems), (newsFeed, GetItems), (eventsFeed, GetItems), (videosFeed, GetItems)]"
| "route_calls RootRoute = [(newsFeed, GetItems), (eventsFeed, GetItems), (videosFeed, GetItems)]"
| "route_calls FeedsRoute = [(newsFeed, GetItems), (eventsFeed, GetItems), (videosFeed, GetItems)]"

datatype schedule_state = Stopped | Running

text \<open>
  The state of the process: the cache of each constructed feed, the job that
  \<^verbatim>\<open>scheduleRefresh()\<close> made for it, if it was called, a clock, and the log of the calls made
  on the feeds so far.
\<close>

record 'i process =
  caches :: "feed_name \<Rightarrow> 'i FeedCache option"
  schedules :: "feed_name \<Rightarrow> schedule_state option"
  clock :: nat
  calls :: "(feed_name \<times> feed_call) list"

definition initial_process :: "'i process" where
  "initial_process = \<lparr>caches = (\<lambda>f. None), schedules = (\<lambda>f. None), clock = 0, calls = []\<rparr>"

text \<open>
  Modelled from the spec: what \<^verbatim>\<open>pullItems()\<close> does to the cache of a feed (the class is
  in \<^verbatim>\<open>./feed\<close>): one refresh, where \<open>upstream f n\<close> is the outcome of the fetch number
  \<open>n\<close> of feed \<open>f\<close>.
\<close>

definition pull ::
  "(feed_name \<Rightarrow> nat \<Rightarrow> js_error + 'i list) \<Rightarrow> feed_name \<Rightarrow> 'i process \<Rightarrow> 'i process" where
  "pull upstream f s =
     (case caches s f of
        None \<Rightarrow> s
      | Some c \<Rightarrow>
          s\<lparr>caches := (caches s)(f := Some (snd (refresh (upstream f (fetches c)) (clock s) c)))\<rparr>)"

text \<open>
  Modelled from the spec: the effect of each call on the feed it is made on. The job that
  \<^verbatim>\<open>scheduleRefresh()\<close> creates starts out stopped, and \<^verbatim>\<open>start()\<close> sets it running.
\<close>

fun effect ::
  "(feed_name \<Rightarrow> nat \<Rightarrow> js_error + 'i list) \<Rightarrow> 'i process \<Rightarrow> feed_name \<times> feed_call
   \<Rightarrow> 'i process" where
  "effect upstream s (f, Construct) = s\<lparr>caches := (caches s)(f := Some new_FeedCache)\<rparr>"
| "effect upstream s (f, PullItems) = pull upstream f s"
| "effect upstream s (f, ScheduleRefresh) = s\<lparr>schedules := (schedules s)(f := Some Stopped)\<rparr>"
| "effect upstream s (f, Start) =
     (if schedules s f = Some Stopped
      then s\<lparr>schedules := (schedules s)(f := Some Running)\<rparr> else s)"
| "effect upstream s (f, GetItems) =
     s\<lparr>caches := (caches s)(f := map_option (\<lambda>c. snd (getItems c)) (caches s f))\<rparr>"

text \<open>A call takes effect and is logged.\<close>

definition make_call ::
  "(feed_name \<Rightarrow> nat \<Rightarrow> js_error + 'i list) \<Rightarrow> 'i process \<Rightarrow> feed_name \<times> feed_call
   \<Rightarrow> 'i process" where
  "make_call upstream s fc = (effect upstream s fc)\<lparr>calls := calls s @ [fc]\<rparr>"

definition startup :: "(feed_name \<Rightarrow> nat \<Rightarrow> js_error + 'i list) \<Rightarrow> 'i process" where
  "startup upstream = foldl (make_call upstream) initial_process startup_calls"

text \<open>
  What can happen after the module is evaluated: the continuation
  \<^verbatim>\<open>.then((f) => f.start())\<close> attached to a call of \<^verbatim>\<open>scheduleRefresh()\<close> runs, the
  timer of a feed's job fires, or a request is served.
\<close>

datatype event = Continuation feed_name | Tick feed_name | Request route

text \<open>
  Modelled from the spec: the job is made in \<^verbatim>\<open>./feed\<close>; it fires only while it is
  running, and then refreshes its own feed (section 4.3). The rest is index.js: a
  continuation exists only for a feed on which \<^verbatim>\<open>scheduleRefresh()\<close> was called, and
  calls \<^verbatim>\<open>start()\<close>; a request makes the reads of its route.
\<close>

fun step ::
  "(feed_name \<Rightarrow> nat \<Rightarrow> js_error + 'i list) \<Rightarrow> 'i process \<Rightarrow> event \<Rightarrow> 'i process" where
  "step upstream s (Continuation f) =
     (if schedules s f = Some Stopped then make_call upstream s (f, Start) else s)"
| "step upstream s (Tick f) =
     (if schedules s f = Some Running then make_call upstream s (f, PullItems) else s)"
| "step upstream s (Request r) = foldl (make_call upstream) s (route_calls r)"

definition run :: "(feed_name \<Rightarrow> nat \<Rightarrow> js_error + 'i list) \<Rightarrow> event list \<Rightarrow> 'i process" where
  "run upstream evs =
     foldl (\<lambda>s ev. (step upstream s ev)\<lparr>clock := Suc (clock s)\<rparr>) (startup upstream) evs"

text \<open>The state in which \<^verbatim>\<open>ilFeed\<close> has been constructed and nothing else was done to it.\<close>

definition never_started :: "'i process \<Rightarrow> bool" where
  "never_started s \<longleftrightarrow>
     caches s ilFeed = Some new_FeedCache \<and> schedules s ilFeed = None
     \<and> (ilFeed, Construct) \<in> set (calls s)
     \<and> (ilFeed, PullItems) \<notin> set (calls s)
     \<and> (ilFeed, ScheduleRefresh) \<notin> set (calls s)
     \<and> (ilFeed, Start) \<notin> set (calls s)"

section \<open>Example inputs\<close>

text \<open>
  An environment in which every collaborator answers, for the four given cache reads;
  items are natural numbers.
\<close>

definition example_env ::
  "nat list js_call \<Rightarrow> nat list js_call \<Rightarrow> nat list js_call \<Rightarrow> nat list js_call
   \<Rightarrow> (nat, string) env" where
  "example_env n e v il =
     \<lparr>newsFeed_getItems = n, eventsFeed_getItems = e, videosFeed_getItems = v,
      ilFeed_getItems = il,
      validateInterval = (\<lambda>q. Resolves q),
      validateLimit = (\<lambda>q. Inr (case q of None \<Rightarrow> None | Some s \<Rightarrow> parseInt_string s)),
      DEFAULT_START_DATE_INTERVAL = ''default interval'',
      FEATURED_APPS_AVUS = ''featured avus'',
      recentAnalysesData = (\<lambda>u l. Resolves (Some ''recent analyses'')),
      runningAnalysesData = (\<lambda>u l. Resolves None),
      getPublicAppIDs = Resolves ''public ids'',
      recentlyAddedData = (\<lambda>u l ids. Resolves ''recently added''),
      publicAppsData = (\<lambda>u l ids. Resolves ''public apps''),
      getRecentlyUsedApps = (\<lambda>u l i ids. Resolves ''recently used''),
      getFilteredTargetIds = (\<lambda>ids avus u. Resolves ''featured ids''),
      popularFeaturedData = (\<lambda>u l ids i. Resolves ''popular featured'')\<rparr>"

definition example_request :: request where
  "example_request =
     \<lparr>params_username = ''alice'', query_limit = Some ''2'',
      query_start_date_interval = None\<rparr>"

definition example_dashboard :: "(nat, string) dashboard" where
  "example_dashboard =
     \<lparr>apps_recentlyAdded = ''recently added'',
      apps_public = ''public apps'',
      apps_recentlyUsed = ''recently used'',
      apps_popularFeatured = ''popular featured'',
      analyses_recent = Some ''recent analyses'',
      analyses_running = None,
      instantLaunches = [50, 40, 30, 20, 10],
      feeds = \<lparr>news = [3, 2], events = [5, 4], videos = []\<rparr>\<rparr>"

text \<open>
  A configuration in which every setting the module reads is defined, the four feed
  settings with the value \<^verbatim>\<open>null\<close>.
\<close>

definition config_null_feed_settings :: config where
  "config_null_feed_settings = map_of
     [(''db.user'', CStr ''de''), (''db.password'', CStr ''secret''),
      (''db.host'', CStr ''localhost''), (''db.port'', CStr ''5432''),
      (''db.database'', CStr ''de''), (''logging.level'', CStr ''debug''),
      (''logging.label'', CNull), (''listen_port'', CNum 3000),
      (''permissions.uri'', CStr ''http://permissions''),
      (''permissions.public_group'', CStr ''public''),
      (''website.url'', CNull), (''website.feeds.news'', CNull),
      (''website.feeds.events'', CNull), (''videos.url'', CNull),
      (''app-exposer.url'', CNull), (''app-exposer.user'', CStr ''de''),
      (''apps.favorites_group_index'', CStr ''0''), (''apps.url'', CStr ''http://apps''),
      (''metadata.url'', CStr ''http://metadata''),
      (''metadata.featured_apps_attr'', CStr ''featured''),
      (''metadata.featured_apps_value'', CStr ''true'')]"

section \<open>Auxiliary facts\<close>

lemma and_then_Inr_iff: "and_then m f = Inr r \<longleftrightarrow> (\<exists>v. m = Inr v \<and> f v = Inr r)"
  by (cases m) auto

lemma invoke_Inr_Inr_iff: "invoke c = Inr (Inr v) \<longleftrightarrow> c = Resolves v"
  by (cases c) auto

lemma slice0_take: "0 \<le> limit \<Longrightarrow> slice0 xs limit = take (nat limit) xs"
  by (simp add: slice0_def)

lemma sorted_wrt_take_drop:
  "sorted_wrt P xs \<Longrightarrow> \<forall>x\<in>set (take n xs). \<forall>y\<in>set (drop n xs). P x y"
  by (metis append_take_drop_id sorted_wrt_append)

lemma parseInt_string_2: "parseInt_string ''2'' = Some 2"
  by (simp add: parseInt_string_def is_white_space_def digit_of_def Let_def)

section \<open>Feed aggregation\<close>

text \<open>
  C2. For a positive limit and any three cached snapshots, \<^verbatim>\<open>createFeeds\<close> returns the
  object with the keys \<^verbatim>\<open>news\<close>, \<^verbatim>\<open>events\<close> and \<^verbatim>\<open>videos\<close>, each holding the first
  \<open>limit\<close> items of its own snapshot. When the news snapshot is in descending order of
  publication time, so is what is returned of it, and no item left out is more recent
  than an item returned; with a limit of 3 over 10 items, the first three are returned.
\<close>

theorem createFeeds_truncates_each_feed:
  fixes publishedAt :: "'i \<Rightarrow> int"
  assumes "0 < limit"
    and "newsFeed_getItems env = Resolves ns"
    and "eventsFeed_getItems env = Resolves es"
    and "videosFeed_getItems env = Resolves vs"
  shows "createFeeds env limit =
           Inr \<lparr>news = take (nat limit) ns, events = take (nat limit) es,
                videos = take (nat limit) vs\<rparr>
         \<and> (sorted_wrt (\<lambda>a b. publishedAt b \<le> publishedAt a) ns \<longrightarrow>
              sorted_wrt (\<lambda>a b. publishedAt b \<le> publishedAt a) (take (nat limit) ns)
              \<and> (\<forall>x\<in>set (take (nat limit) ns). \<forall>y\<in>set (drop (nat limit) ns).
                    publishedAt y \<le> publishedAt x))
         \<and> (limit = 3 \<and> length ns = 10 \<longrightarrow> take (nat limit) ns = [ns ! 0, ns ! 1, ns ! 2])"
proof -
  have "createFeeds env limit =
           Inr \<lparr>news = take (nat limit) ns, events = take (nat limit) es,
                videos = take (nat limit) vs\<rparr>"
    using assms by (simp add: createFeeds_def slice0_take)
  moreover have "sorted_wrt (\<lambda>a b. publishedAt b \<le> publishedAt a) ns \<longrightarrow>
              sorted_wrt (\<lambda>a b. publishedAt b \<le> publishedAt a) (take (nat limit) ns)
              \<and> (\<forall>x\<in>set (take (nat limit) ns). \<forall>y\<in>set (drop (nat limit) ns).
                    publishedAt y \<le> publishedAt x)"
    using sorted_wrt_take
      sorted_wrt_take_drop [of "\<lambda>a b. publishedAt b \<le> publishedAt a" ns "nat limit"]
    by blast
  moreover have "limit = 3 \<and> length ns = 10 \<longrightarrow> take (nat limit) ns = [ns ! 0, ns ! 1, ns ! 2]"
  proof
    assume h: "limit = 3 \<and> length ns = 10"
    then have "nat limit = Suc (Suc (Suc 0))" by simp
    moreover have "0 < length ns" "1 < length ns" "2 < length ns" using h by simp_all
    ultimately show "take (nat limit) ns = [ns ! 0, ns ! 1, ns ! 2]"
      by (simp add: take_Suc_conv_app_nth numeral_2_eq_2)
  qed
  ultimately show ?thesis by blast
qed

theorem createFeeds_truncates_each_feed_witness:
  "(0::int) < 3
   \<and> newsFeed_getItems (example_env (Resolves [10, 9, 8, 7, 6, 5, 4, 3, 2, 1])
        (Resolves [5, 4]) (Resolves []) (Resolves [])) = Resolves [10, 9, 8, 7, 6, 5, 4, 3, 2, 1]
   \<and> sorted_wrt (\<lambda>a b. int b \<le> int a) [10, 9, 8, 7, 6, 5, 4, 3, 2, 1 :: nat]
   \<and> length [10, 9, 8, 7, 6, 5, 4, 3, 2, 1 :: nat] = 10
   \<and> createFeeds (example_env (Resolves [10, 9, 8, 7, 6, 5, 4, 3, 2, 1])
        (Resolves [5, 4]) (Resolves []) (Resolves [])) 3
       = Inr \<lparr>news = [10, 9, 8], events = [5, 4], videos = []\<rparr>
   \<and> sorted_wrt (\<lambda>a b. int b \<le> int a) [10, 9, 8 :: nat]"
  using createFeeds_truncates_each_feed
          [of 3 "example_env (Resolves [10, 9, 8, 7, 6, 5, 4, 3, 2, 1])
                   (Resolves [5, 4]) (Resolves []) (Resolves [])"
              "[10, 9, 8, 7, 6, 5, 4, 3, 2, 1]" "[5, 4]" "[]" int]
  by (simp add: example_env_def numeral_3_eq_3)

text \<open>
  C3, as the spec states it: a failing read of one cache leaves the other feeds' sections
  in the response. It does not hold: with the news read throwing and the other two
  succeeding, \<^verbatim>\<open>createFeeds\<close> rejects and \<^verbatim>\<open>/feeds\<close> answers 500 with no section at all.
\<close>

theorem createFeeds_no_isolation_counterexample:
  "createFeeds (example_env (Throws (Error ''timeout'')) (Resolves [5, 4]) (Resolves [7])
       (Resolves [])) 10 = Inl (Error ''timeout'')
   \<and> feeds_handler (example_env (Throws (Error ''timeout'')) (Resolves [5, 4]) (Resolves [7])
       (Resolves [])) example_request
       = Response 500 (Reason ''error getting feeds: timeout'')"
  by (simp add: createFeeds_def feeds_handler_def example_env_def example_request_def
      parseInt_string_2)

text \<open>
  C3, amended. When one of the three cache reads fails, the aggregation fails as a whole:
  \<^verbatim>\<open>createFeeds\<close> rejects, for every limit, with the error of a failing read, and
  \<^verbatim>\<open>/feeds\<close> answers 500 with the reason \<^verbatim>\<open>error getting feeds:\<close> followed by that error's
  message.
\<close>

theorem createFeeds_fails_as_a_whole:
  assumes "isl (await_call (newsFeed_getItems env))
           \<or> isl (await_call (eventsFeed_getItems env))
           \<or> isl (await_call (videosFeed_getItems env))"
    and "validateLimit env (query_limit req) = Inr l"
  shows "\<exists>e. (\<forall>limit. createFeeds env limit = Inl e)
             \<and> feeds_handler env req = Response 500 (Reason (''error getting feeds: '' @ message e))
             \<and> (await_call (newsFeed_getItems env) = Inl e
                 \<or> await_call (eventsFeed_getItems env) = Inl e
                 \<or> await_call (videosFeed_getItems env) = Inl e)"
proof (cases "await_call (newsFeed_getItems env)")
  case (Inl a)
  then show ?thesis using assms(2)
    by (auto simp: createFeeds_def feeds_handler_def)
next
  case n: (Inr ns)
  show ?thesis
  proof (cases "await_call (eventsFeed_getItems env)")
    case (Inl a)
    then show ?thesis using assms(2) n
      by (auto simp: createFeeds_def feeds_handler_def)
  next
    case ev: (Inr es)
    with n assms(1) obtain a where "await_call (videosFeed_getItems env) = Inl a"
      by (cases "await_call (videosFeed_getItems env)") auto
    then show ?thesis using assms(2) n ev
      by (auto simp: createFeeds_def feeds_handler_def)
  qed
qed

theorem createFeeds_fails_as_a_whole_witness:
  "isl (await_call (videosFeed_getItems
       (example_env (Resolves [3, 2, 1]) (Resolves [5, 4]) (Rejects (Error ''timeout''))
          (Resolves []))))
   \<and> validateLimit (example_env (Resolves [3, 2, 1]) (Resolves [5, 4])
          (Rejects (Error ''timeout'')) (Resolves [])) (query_limit example_request) = Inr (Some 2)
   \<and> createFeeds (example_env (Resolves [3, 2, 1]) (Resolves [5, 4])
          (Rejects (Error ''timeout'')) (Resolves [])) 2 = Inl (Error ''timeout'')
   \<and> feeds_handler (example_env (Resolves [3, 2, 1]) (Resolves [5, 4])
          (Rejects (Error ''timeout'')) (Resolves [])) example_request
       = Response 500 (Reason ''error getting feeds: timeout'')"
  using createFeeds_fails_as_a_whole
          [of "example_env (Resolves [3, 2, 1]) (Resolves [5, 4])
                 (Rejects (Error ''timeout'')) (Resolves [])" example_request "Some 2"]
  by (auto simp: example_env_def example_request_def parseInt_string_2)

section \<open>The per-user dashboard\<close>

lemma users_try_instantLaunches:
  "users_try env req = Inr d \<Longrightarrow> ilFeed_getItems env = Resolves (instantLaunches d)"
  unfolding users_try_def Let_def and_then_Inr_iff invoke_Inr_Inr_iff
  by (elim exE conjE) (cases "ilFeed_getItems env"; auto)

text \<open>
  C4. Whenever \<^verbatim>\<open>/users/:username\<close> answers 200, the \<^verbatim>\<open>instantLaunches\<close> value of the
  response is the whole list that \<^verbatim>\<open>ilFeed.getItems()\<close> resolved to, whatever the limit,
  while the \<^verbatim>\<open>feeds\<close> value of the same response is what \<^verbatim>\<open>createFeeds\<close> returns for the
  limit of the request.
\<close>

theorem users_handler_instantLaunches_not_truncated:
  assumes "users_handler env req = Response 200 (Dashboard d)"
  shows "ilFeed_getItems env = Resolves (instantLaunches d)
         \<and> (\<exists>l. validateLimit env (query_limit req) = Inr l
                \<and> createFeeds env (nullish_or l 10) = Inr (feeds d))"
proof -
  from assms have t: "users_try env req = Inr d"
    by (auto simp: users_handler_def split: sum.splits)
  have "ilFeed_getItems env = Resolves (instantLaunches d)"
    using t by (rule users_try_instantLaunches)
  moreover have "\<exists>l. validateLimit env (query_limit req) = Inr l
                \<and> createFeeds env (nullish_or l 10) = Inr (feeds d)"
    using t unfolding users_try_def Let_def and_then_Inr_iff
    by (elim exE conjE) auto
  ultimately show ?thesis by blast
qed

lemma example_users_handler:
  "users_handler (example_env (Resolves [3, 2, 1]) (Resolves [5, 4]) (Resolves [])
        (Resolves [50, 40, 30, 20, 10])) example_request
     = Response 200 (Dashboard example_dashboard)"
  by (simp add: users_handler_def users_try_def example_env_def example_request_def
      parseInt_string_2 createFeeds_def slice0_def example_dashboard_def numeral_2_eq_2)

theorem users_handler_instantLaunches_not_truncated_witness:
  "users_handler (example_env (Resolves [3, 2, 1]) (Resolves [5, 4]) (Resolves [])
        (Resolves [50, 40, 30, 20, 10])) example_request
     = Response 200 (Dashboard example_dashboard)
   \<and> ilFeed_getItems (example_env (Resolves [3, 2, 1]) (Resolves [5, 4]) (Resolves [])
        (Resolves [50, 40, 30, 20, 10])) = Resolves (instantLaunches example_dashboard)
   \<and> length (instantLaunches example_dashboard) = 5
   \<and> length (news (feeds example_dashboard)) = 2"
  using users_handler_instantLaunches_not_truncated [OF example_users_handler]
        example_users_handler
  by (simp add: example_dashboard_def)

section \<open>Health check\<close>

lemma healthz_rows:
  "healthz logger_error (Resolves (r # rs)) = Inr (Response 200 (Text (''version '' @ version r)))"
  by (simp add: healthz_def)

lemma healthz_query_fails:
  "healthz logger_error (Rejects e) =
     (case logger_error e of
        Undefined \<Rightarrow> Inl (TypeError ''Cannot destructure property rows of undefined'')
      | Object None \<Rightarrow> Inr (Response 500 (Text ''no rows returned from database''))
      | Object (Some []) \<Rightarrow>
          Inl (TypeError ''Cannot read properties of undefined (reading version)'')
      | Object (Some (r # rs)) \<Rightarrow> Inr (Response 200 (Text (''version '' @ version r))))"
  by (simp add: healthz_def)

text \<open>
  C10. The claim asks for status 500 and the body \<^verbatim>\<open>no rows returned from database\<close> when
  the query yields no rows. When the query succeeds with an empty \<^verbatim>\<open>rows\<close> array the
  handler sends nothing: reading \<^verbatim>\<open>rows[0].version\<close> throws, and the rejection is unhandled.
\<close>

theorem healthz_empty_rows_unhandled:
  "healthz logger_error (Resolves []) =
     Inl (TypeError ''Cannot read properties of undefined (reading version)'')"
  by (simp add: healthz_def)

section \<open>Configuration\<close>

lemma validate_example: "validate config_null_feed_settings = Inr ()"
  by code_simp

text \<open>
  C7, as the spec states it: the base URL and the paths of every feed source are validated
  at process start, and the process does not start when one of them is absent or null.
  It does not hold for null values: with the four feed settings set to \<^verbatim>\<open>null\<close>,
  \<^verbatim>\<open>validate\<close> succeeds and the module loads, exporting \<^verbatim>\<open>null\<close> for them.
\<close>

theorem feed_settings_not_validated_counterexample:
  "config_null_feed_settings ''website.url'' = Some CNull
   \<and> config_null_feed_settings ''website.feeds.news'' = Some CNull
   \<and> config_null_feed_settings ''website.feeds.events'' = Some CNull
   \<and> config_null_feed_settings ''videos.url'' = Some CNull
   \<and> validate config_null_feed_settings = Inr ()
   \<and> load_configuration config_null_feed_settings =
       Inr \<lparr>dbUser = CStr ''de'', dbPass = CStr ''secret'', dbHost = CStr ''localhost'',
            dbPort = Some 5432, dbDatabase = CStr ''de'', logLevel = CStr ''debug'',
            logLabel = CStr ''dashboard-aggregator'', listenPort = Some 3000,
            permissionsURL = CStr ''http://permissions'', publicGroup = CStr ''public'',
            websiteURL = CNull, newsFeedPath = CNull, eventsFeedPath = CNull,
            videosURL = CNull, appExposerURL = CStr ''http://app-exposer'',
            appExposerUser = CStr ''de'', favoritesGroupIndex = Some 0,
            appsURL = CStr ''http://apps'', metadataURL = CStr ''http://metadata'',
            featuredAppsAttr = CStr ''featured'', featuredAppsValue = CStr ''true''\<rparr>"
  by code_simp

lemma validateConfigSetting_unset:
  "validateConfigSetting config name =
     (if unset config name then Inl (Error (name @ '' must be set in the configuration''))
      else Inr ())"
  by (auto simp: validateConfigSetting_def unset_def has_def get_def split: option.splits)

lemma validate_find:
  "validate config =
     (case find (unset config) required_settings of
        None \<Rightarrow> Inr ()
      | Some name \<Rightarrow> Inl (Error (name @ '' must be set in the configuration'')))"
  by (simp add: validate_def required_settings_def validateConfigSetting_unset)

lemma load_after_validate:
  "validate config = Inl e \<Longrightarrow> load_configuration config = Inl e"
  by (simp add: load_configuration_def)

lemma load_reads_feed_settings:
  assumes "load_configuration config = Inr r"
  shows "config ''website.url'' \<noteq> None \<and> config ''website.feeds.news'' \<noteq> None
         \<and> config ''website.feeds.events'' \<noteq> None \<and> config ''videos.url'' \<noteq> None"
proof -
  from assms obtain a b c d where
    "get config ''website.url'' = Inr a" "get config ''website.feeds.news'' = Inr b"
    "get config ''website.feeds.events'' = Inr c" "get config ''videos.url'' = Inr d"
    unfolding load_configuration_def and_then_Inr_iff by blast
  then show ?thesis
    by (auto simp: get_def split: option.splits)
qed

lemma absent_feed_setting_fails:
  assumes "feed \<in> set feed_settings" and "config feed = None"
  shows "\<exists>e. load_configuration config = Inl e"
proof (cases "load_configuration config")
  case (Inl e)
  then show ?thesis by blast
next
  case (Inr r)
  from load_reads_feed_settings [OF Inr] assms show ?thesis
    by (auto simp: feed_settings_def)
qed

text \<open>
  C7, amended. Required configuration is checked eagerly, when the module is loaded at
  process start. The load fails if one of the ten settings that \<^verbatim>\<open>validate\<close> names
  (\<^verbatim>\<open>db.user\<close>, \<^verbatim>\<open>db.password\<close>, \<^verbatim>\<open>db.host\<close>, \<^verbatim>\<open>db.port\<close>, \<^verbatim>\<open>db.database\<close>,
  \<^verbatim>\<open>listen_port\<close>, \<^verbatim>\<open>permissions.uri\<close>, \<^verbatim>\<open>permissions.public_group\<close>,
  \<^verbatim>\<open>apps.favorites_group_index\<close>, \<^verbatim>\<open>apps.url\<close>) is absent or null, with the error naming
  the first of them that is; validation succeeds when none is. The load also fails if one
  of the feed settings (\<^verbatim>\<open>website.url\<close>, \<^verbatim>\<open>website.feeds.news\<close>,
  \<^verbatim>\<open>website.feeds.events\<close>, \<^verbatim>\<open>videos.url\<close>) is absent. A feed setting that is null is
  not rejected: no setting outside the ten has any influence on the validation.
\<close>

theorem validate_required_settings:
  "(case find (unset config) required_settings of
      None \<Rightarrow> validate config = Inr ()
    | Some name \<Rightarrow>
        validate config = Inl (Error (name @ '' must be set in the configuration''))
        \<and> load_configuration config = Inl (Error (name @ '' must be set in the configuration'')))
   \<and> (feed \<in> set feed_settings \<and> config feed = None \<longrightarrow> (\<exists>e. load_configuration config = Inl e))
   \<and> (name \<notin> set required_settings \<longrightarrow> validate (config(name := v)) = validate config)"
proof -
  have a: "case find (unset config) required_settings of
      None \<Rightarrow> validate config = Inr ()
    | Some name \<Rightarrow>
        validate config = Inl (Error (name @ '' must be set in the configuration''))
        \<and> load_configuration config = Inl (Error (name @ '' must be set in the configuration''))"
    by (auto simp: validate_find load_after_validate split: option.splits)
  have b: "name \<notin> set required_settings \<longrightarrow> validate (config(name := v)) = validate config"
  proof
    assume n: "name \<notin> set required_settings"
    have "find (unset (config(name := v))) required_settings = find (unset config) required_settings"
      using n by (intro find_cong) (auto simp: unset_def)
    then show "validate (config(name := v)) = validate config"
      by (simp add: validate_find)
  qed
  have c: "feed \<in> set feed_settings \<and> config feed = None
           \<longrightarrow> (\<exists>e. load_configuration config = Inl e)"
    using absent_feed_setting_fails by blast
  from a b c show ?thesis by blast
qed

lemma videos_url_not_required: "''videos.url'' \<notin> set required_settings"
  by code_simp

lemma videos_url_feed_setting: "''videos.url'' \<in> set feed_settings"
  by code_simp

lemma example_first_unset:
  "find (unset (config_null_feed_settings(''apps.url'' := Some CNull))) required_settings
     = Some ''apps.url''"
  by code_simp

lemma example_none_unset:
  "find (unset (config_null_feed_settings(''videos.url'' := None))) required_settings = None"
  by code_simp

theorem validate_required_settings_witness:
  "''videos.url'' \<notin> set required_settings
   \<and> ''videos.url'' \<in> set feed_settings
   \<and> (config_null_feed_settings(''videos.url'' := None)) ''videos.url'' = None
   \<and> find (unset (config_null_feed_settings(''videos.url'' := None))) required_settings = None
   \<and> validate (config_null_feed_settings(''videos.url'' := None)) = Inr ()
   \<and> (\<exists>e. load_configuration (config_null_feed_settings(''videos.url'' := None)) = Inl e)
   \<and> validate (config_null_feed_settings(''videos.url'' := Some CNull)) = Inr ()
   \<and> find (unset (config_null_feed_settings(''apps.url'' := Some CNull))) required_settings
       = Some ''apps.url''
   \<and> load_configuration (config_null_feed_settings(''apps.url'' := Some CNull))
       = Inl (Error ''apps.url must be set in the configuration'')"
  using validate_required_settings
          [of "config_null_feed_settings(''videos.url'' := None)" "''videos.url''"
              "''videos.url''" "Some CNull"]
        validate_required_settings
          [of "config_null_feed_settings(''apps.url'' := Some CNull)" "''videos.url''"
              "''videos.url''" None]
        videos_url_not_required videos_url_feed_setting example_first_unset example_none_unset
  by simp

text \<open>
  A feed setting that is not defined at all does stop the load, not through the
  validation but through \<^verbatim>\<open>config.get\<close>, which throws for a name that is not defined.
\<close>

lemma absent_feed_setting_stops_load:
  "load_configuration (config_null_feed_settings(''videos.url'' := None))
     = Inl (Error (''Configuration property '' @ [CHR 0x22] @ ''videos.url'' @ [CHR 0x22]
                    @ '' is not defined''))"
  by code_simp

section \<open>Feed cache\<close>

text \<open>
  C1. When the fetcher fails, \<^verbatim>\<open>refresh()\<close> returns the fetcher's error to its caller
  and the cache is as before: \<^verbatim>\<open>getItems()\<close> returns the same items after the call as
  before it, and the time of the last successful refresh is unchanged. A refresh fails
  in no other way: whenever it returns an error, the fetcher failed with that error and
  the cache kept its snapshot.
\<close>

theorem refresh_failure_keeps_snapshot:
  "fst (refresh (Inl e) now c) = Inl e
   \<and> fst (getItems (snd (refresh (Inl e) now c))) = fst (getItems c)
   \<and> lastRefreshedAt (snd (refresh (Inl e) now c)) = lastRefreshedAt c
   \<and> (fst (refresh fetched now c) = Inl e \<longrightarrow>
        fetched = Inl e
        \<and> fst (getItems (snd (refresh fetched now c))) = fst (getItems c)
        \<and> lastRefreshedAt (snd (refresh fetched now c)) = lastRefreshedAt c)"
  by (cases fetched) (simp_all add: refresh_def getItems_def)

theorem refresh_failure_keeps_snapshot_witness:
  "fst (refresh (Inl (Error ''timeout'')) 7
         \<lparr>items = [3, 2, 1 :: nat], lastRefreshedAt = Some 4, fetches = 1\<rparr>)
     = Inl (Error ''timeout'')
   \<and> fst (getItems (snd (refresh (Inl (Error ''timeout'')) 7
         \<lparr>items = [3, 2, 1 :: nat], lastRefreshedAt = Some 4, fetches = 1\<rparr>))) = [3, 2, 1]
   \<and> lastRefreshedAt (snd (refresh (Inl (Error ''timeout'')) 7
         \<lparr>items = [3, 2, 1 :: nat], lastRefreshedAt = Some 4, fetches = 1\<rparr>)) = Some 4"
  using refresh_failure_keeps_snapshot
          [of "Error ''timeout''" 7
              "\<lparr>items = [3, 2, 1 :: nat], lastRefreshedAt = Some 4, fetches = 1\<rparr>"
              "Inl (Error ''timeout'')"]
  by (simp add: getItems_def)

lemma items_refresh_all:
  "items (refresh_all rs now c) = (case last_success rs of None \<Rightarrow> items c | Some xs \<Rightarrow> xs)"
proof (induction rs arbitrary: now c)
  case Nil
  then show ?case by simp
next
  case (Cons r rs)
  then show ?case
    by (cases r) (auto simp: refresh_def split: option.splits)
qed

text \<open>
  C8. \<^verbatim>\<open>getItems()\<close> returns a list, never an error, and leaves the cache, the count of
  fetches included, as it was. On a new cache it returns the empty list, and after any
  run of refreshes it returns the items of the last fetch that succeeded, or the empty
  list when none did.
\<close>

theorem getItems_returns_last_snapshot:
  "fst (getItems (new_FeedCache :: 'i FeedCache)) = []
   \<and> snd (getItems c) = c
   \<and> fst (getItems (refresh_all rs now (new_FeedCache :: 'i FeedCache)))
       = (case last_success rs of None \<Rightarrow> [] | Some xs \<Rightarrow> xs)"
  by (simp add: getItems_def items_refresh_all new_FeedCache_def split: option.splits)

section \<open>The instant-launches feed after process start\<close>

lemma pull_other:
  "f \<noteq> g \<Longrightarrow> caches (pull upstream f s) g = caches s g"
  by (simp add: pull_def split: option.splits)

lemma pull_schedules: "schedules (pull upstream f s) = schedules s"
  by (simp add: pull_def split: option.splits)

lemma pull_calls: "calls (pull upstream f s) = calls s"
  by (simp add: pull_def split: option.splits)

lemma never_started_make_call:
  assumes "never_started s" and "f \<noteq> ilFeed \<or> c = GetItems"
  shows "never_started (make_call upstream s (f, c))"
proof (cases "f = ilFeed")
  case True
  with assms show ?thesis
    by (simp add: never_started_def make_call_def getItems_def)
next
  case False
  with assms(1) show ?thesis
    by (cases c) (simp_all add: never_started_def make_call_def pull_other pull_schedules pull_calls)
qed

lemma never_started_clock: "never_started (s\<lparr>clock := t\<rparr>) = never_started s"
  by (simp add: never_started_def)

lemma never_started_step:
  assumes "never_started s"
  shows "never_started (step upstream s ev)"
proof (cases ev)
  case (Continuation f)
  have "schedules s f = Some Stopped \<Longrightarrow> f \<noteq> ilFeed"
    using assms by (auto simp: never_started_def)
  with assms Continuation show ?thesis
    by (simp add: never_started_make_call)
next
  case (Tick f)
  have "schedules s f = Some Running \<Longrightarrow> f \<noteq> ilFeed"
    using assms by (auto simp: never_started_def)
  with assms Tick show ?thesis
    by (simp add: never_started_make_call)
next
  case (Request r)
  with assms show ?thesis
    by (cases r) (simp_all add: never_started_make_call)
qed

lemma never_started_foldl:
  "never_started s \<Longrightarrow>
   never_started (foldl (\<lambda>s ev. (step upstream s ev)\<lparr>clock := Suc (clock s)\<rparr>) s evs)"
  by (induction evs arbitrary: s) (simp_all add: never_started_step never_started_clock)

lemma never_started_startup: "never_started (startup upstream)"
  by (simp add: startup_def startup_calls_def initial_process_def never_started_def
      make_call_def pull_other pull_schedules pull_calls)

text \<open>The other three feeds are pulled at start: the news cache has had its first fetch.\<close>

lemma startup_pulls_newsFeed:
  "caches (startup upstream) newsFeed
     = Some (snd (refresh (upstream newsFeed 0) 0 new_FeedCache))"
  by (simp add: startup_def startup_calls_def initial_process_def make_call_def pull_def
      new_FeedCache_def)

text \<open>
  C5. \<^verbatim>\<open>ilFeed\<close> is constructed at start, and in no run of the process is
  \<^verbatim>\<open>pullItems()\<close>, \<^verbatim>\<open>scheduleRefresh()\<close> or \<^verbatim>\<open>start()\<close> ever called on it: whatever
  continuations run, jobs fire and requests are served, it has no job, and its cache is
  the one the constructor made, with no fetch counted.
\<close>

theorem ilFeed_constructed_never_started:
  "(ilFeed, Construct) \<in> set startup_calls
   \<and> (ilFeed, Construct) \<in> set (calls (run upstream evs))
   \<and> (ilFeed, PullItems) \<notin> set (calls (run upstream evs))
   \<and> (ilFeed, ScheduleRefresh) \<notin> set (calls (run upstream evs))
   \<and> (ilFeed, Start) \<notin> set (calls (run upstream evs))
   \<and> caches (run upstream evs) ilFeed = Some new_FeedCache
   \<and> schedules (run upstream evs) ilFeed = None"
proof -
  have "never_started (run upstream evs)"
    unfolding run_def by (rule never_started_foldl [OF never_started_startup])
  then show ?thesis
    by (simp add: never_started_def startup_calls_def)
qed

end
